theory Spec2Isabelle
  imports Complex_Main "HOL-Library.Sublist" "HOL-Library.AList"
begin

section \<open>Python strings\<close>

text \<open>
  A Python \<open>str\<close> is modelled as a list of code points below 256 (one \<open>char\<close> each).
  \<open>lower_char\<close> is \<open>str.lower()\<close> on such a code point: the ASCII capitals and the
  Latin-1 capitals (192 to 222 without the multiplication sign 215) move up by 32.
\<close>

definition lower_char :: "char \<Rightarrow> char" where
  "lower_char c =
     (let n = (of_char c :: nat)
      in if (65 \<le> n \<and> n \<le> 90) \<or> (192 \<le> n \<and> n \<le> 222 \<and> n \<noteq> 215)
         then char_of (n + 32) else c)"

definition lower :: "string \<Rightarrow> string" where
  "lower s = map lower_char s"

text \<open>\<open>contains s sub\<close> is Python's \<open>sub in s\<close> on strings.\<close>

fun contains :: "string \<Rightarrow> string \<Rightarrow> bool" where
  "contains [] sub = (sub = [])"
| "contains (c # cs) sub = (prefix sub (c # cs) \<or> contains cs sub)"

text \<open>\<open>any(w in s for w in ws)\<close>.\<close>

definition any_in :: "string list \<Rightarrow> string \<Rightarrow> bool" where
  "any_in ws s = list_ex (\<lambda>w. contains s w) ws"

text \<open>\<open>str.isspace()\<close> on one code point below 256.\<close>

definition isspace :: "char \<Rightarrow> bool" where
  "isspace c =
     (let n = (of_char c :: nat)
      in (9 \<le> n \<and> n \<le> 13) \<or> (28 \<le> n \<and> n \<le> 32) \<or> n = 133 \<or> n = 160)"

text \<open>
  \<open>str.split()\<close> without arguments: the maximal runs of non-whitespace characters.
  The first argument is the word being read.
\<close>

fun split_from :: "string \<Rightarrow> string \<Rightarrow> string list" where
  "split_from w [] = (if w = [] then [] else [w])"
| "split_from w (c # cs) =
     (if isspace c then (if w = [] then split_from [] cs else w # split_from [] cs)
      else split_from (w @ [c]) cs)"

definition split :: "string \<Rightarrow> string list" where
  "split s = split_from [] s"

section \<open>Python values and exceptions\<close>

text \<open>
  The values that the dictionaries of type \<open>Dict[str, Any]\<close> hold in this program, and such a
  dictionary, \<open>pydict\<close>, as the list of its items in insertion order.
\<close>

datatype pyval = VNone | VBool bool | VStr string | VReal real
  | VList "pyval list" | VDict "(string \<times> pyval) list"

type_synonym pydict = "(string \<times> pyval) list"

text \<open>
  A raised exception: its class and its message \<open>str(e)\<close>. Where the message is only
  logged, the model leaves it empty.
\<close>

datatype exc_class = Exception | TypeError | ValueError | KeyError | AttributeError
  | UnboundLocalError | OSError | DatabaseError

datatype error = Raised exc_class string

fun str_of :: "error \<Rightarrow> string" where
  "str_of (Raised k m) = m"

text \<open>The optional \<open>context\<close> dictionary handed through the calls; the core never reads it.\<close>

type_synonym "context" = "pydict option"

section \<open>Coordinator: the collaboration gate\<close>

definition collaboration_indicators :: "string list" where
  "collaboration_indicators =
     [''research and write'', ''analyze and create'', ''plan and implement'',
      ''compare and design'', ''investigate and report'', ''study and develop'']"

definition domains :: "string list" where
  "domains = [''research'', ''code'', ''creative'', ''task'', ''plan'', ''write'',
              ''analyze'', ''implement'']"

text \<open>\<open>AgentCoordinator._check_collaboration_need\<close>, with its three early returns.\<close>

definition check_collaboration_need :: "string \<Rightarrow> context \<Rightarrow> bool" where
  "check_collaboration_need message ctx =
     (let message_lower = lower message
      in if list_ex (\<lambda>indicator. contains message_lower indicator) collaboration_indicators
         then True
         else
           let domain_count = length (filter (\<lambda>domain. contains message_lower domain) domains)
           in if domain_count \<ge> 2 then True
              else if length (split message) > 50 then True
              else False)"




section \<open>Conversation memory\<close>

text \<open>
  \<open>datetime.now().isoformat()\<close> is a reading of the clock; the readings are modelled as
  natural numbers, ordered as the ISO strings are. A \<open>ref\<close> is the identity of a mutable
  Python object.
\<close>

type_synonym timestamp = nat
type_synonym ref = nat

text \<open>The dataclass \<open>ContextEntry\<close>.\<close>

record context_entry =
  ce_timestamp :: timestamp
  ce_user_message :: string
  ce_assistant_response :: string
  ce_agent_name :: string
  ce_context_type :: string
  ce_metadata :: pydict

text \<open>
  A dictionary handed to \<open>ContextEntry(**entry_dict)\<close>: each key may be missing, the value
  of \<open>metadata\<close> may be \<open>None\<close>, and there may be keys that are no field of the dataclass.
\<close>

record entry_dict =
  d_timestamp :: "timestamp option"
  d_user_message :: "string option"
  d_assistant_response :: "string option"
  d_agent_name :: "string option"
  d_context_type :: "string option"
  d_metadata :: "pydict option option"
  d_other_keys :: "string list"

text \<open>
  \<open>ContextEntry(**entry_dict)\<close> with \<open>__post_init__\<close>: the four fields without a default
  are required, an unexpected key is a \<open>TypeError\<close>, a missing or \<open>None\<close> metadata becomes
  the empty dictionary.
\<close>

definition ContextEntry :: "entry_dict \<Rightarrow> error + context_entry" where
  "ContextEntry d =
     (case (d_timestamp d, d_user_message d, d_assistant_response d, d_agent_name d) of
        (Some t, Some u, Some a, Some n) \<Rightarrow>
          if d_other_keys d \<noteq> [] then Inl (Raised TypeError [])
          else Inr \<lparr> ce_timestamp = t, ce_user_message = u, ce_assistant_response = a,
                     ce_agent_name = n,
                     ce_context_type = (case d_context_type d of None \<Rightarrow> ''conversation''
                                        | Some ct \<Rightarrow> ct),
                     ce_metadata = (case d_metadata d of Some (Some m) \<Rightarrow> m | _ \<Rightarrow> []) \<rparr>
      | _ \<Rightarrow> Inl (Raised TypeError []))"

text \<open>\<open>dataclasses.asdict(entry)\<close>.\<close>

definition asdict :: "context_entry \<Rightarrow> entry_dict" where
  "asdict e =
     \<lparr> d_timestamp = Some (ce_timestamp e), d_user_message = Some (ce_user_message e),
       d_assistant_response = Some (ce_assistant_response e),
       d_agent_name = Some (ce_agent_name e), d_context_type = Some (ce_context_type e),
       d_metadata = Some (Some (ce_metadata e)), d_other_keys = [] \<rparr>"

text \<open>One record of \<open>topic_history\<close>.\<close>

record topic_record =
  tr_timestamp :: timestamp
  tr_topics :: "string list"
  tr_message_snippet :: string

text \<open>The dictionary \<open>context_metadata\<close>.\<close>

record context_metadata_dict =
  created_at :: timestamp
  cm_agent_name :: string
  total_interactions :: int
  last_activity :: "timestamp option"

record preference =
  statement :: string
  pref_timestamp :: timestamp

text \<open>The dictionary \<open>conversation_state\<close>.\<close>

record conversation_state_dict =
  current_task :: "string option"
  user_preferences :: "(string \<times> preference) list"
  active_context :: pydict
  conversation_mode :: string

text \<open>
  \<open>export_context\<close> hands out the objects \<open>context_metadata\<close>, \<open>topic_history\<close> and
  \<open>conversation_state\<close> themselves, not copies, and \<open>clear_context\<close> changes two of them in
  place. These three kinds of object therefore live in a store, and the context holds their
  identities.
\<close>

record heap =
  metadata_at :: "ref \<Rightarrow> context_metadata_dict"
  history_at :: "ref \<Rightarrow> topic_record list"
  state_at :: "ref \<Rightarrow> conversation_state_dict"
  fresh :: ref

text \<open>
  The class \<open>ConversationContext\<close>. \<open>recent_memory\<close> is the content of the
  \<open>deque(maxlen=max_memory_size)\<close>, oldest first; \<open>current_topics\<close> is a set, kept as a list
  without repetitions.
\<close>

record conversation_context =
  agent_name :: string
  max_memory_size :: nat
  recent_memory :: "context_entry list"
  current_topics :: "string list"
  topic_history :: ref
  context_metadata :: ref
  conversation_state :: ref

text \<open>\<open>deque.append\<close> on a deque with \<open>maxlen\<close>: a full deque drops its oldest element.\<close>

definition deque_append :: "nat \<Rightarrow> 'a list \<Rightarrow> 'a \<Rightarrow> 'a list" where
  "deque_append maxlen xs x =
     (if maxlen = 0 then []
      else if length xs \<ge> maxlen then drop (Suc (length xs) - maxlen) xs @ [x]
      else xs @ [x])"

text \<open>The slice \<open>xs[-count:]\<close>.\<close>

definition slice_last :: "int \<Rightarrow> 'a list \<Rightarrow> 'a list" where
  "slice_last count xs =
     (if count > 0 then drop (length xs - nat count) xs
      else drop (nat (- count)) xs)"

definition initial_state :: conversation_state_dict where
  "initial_state = \<lparr> current_task = None, user_preferences = [], active_context = [],
                     conversation_mode = ''general'' \<rparr>"

text \<open>
  \<open>ConversationContext.__init__\<close>. \<open>settings_max\<close> is \<open>settings.max_conversation_history\<close>;
  \<open>deque\<close> raises \<open>ValueError\<close> on a negative \<open>maxlen\<close>.
\<close>

definition init_context ::
  "int \<Rightarrow> timestamp \<Rightarrow> heap \<Rightarrow> string \<Rightarrow> int option \<Rightarrow> error + (heap \<times> conversation_context)"
where
  "init_context settings_max now h name max_size =
     (let m = (case max_size of None \<Rightarrow> settings_max
               | Some k \<Rightarrow> if k = 0 then settings_max else k)
      in if m < 0 then Inl (Raised ValueError [])
         else
           let r = fresh h
           in Inr (h \<lparr> history_at := (history_at h)(r := []),
                       metadata_at := (metadata_at h)(r := \<lparr> created_at = now,
                          cm_agent_name = name, total_interactions = 0,
                          last_activity = None \<rparr>),
                       state_at := (state_at h)(r := initial_state),
                       fresh := Suc r \<rparr>,
                   \<lparr> agent_name = name, max_memory_size = nat m, recent_memory = [],
                     current_topics = [], topic_history = r, context_metadata = r,
                     conversation_state = r \<rparr>))"

definition topic_keywords :: "(string \<times> string list) list" where
  "topic_keywords =
     [(''programming'', [''code'', ''program'', ''script'', ''development'', ''software'',
                         ''algorithm'']),
      (''research'', [''research'', ''study'', ''analyze'', ''information'', ''data'', ''facts'']),
      (''creative'', [''create'', ''write'', ''design'', ''story'', ''creative'', ''idea'']),
      (''planning'', [''plan'', ''organize'', ''schedule'', ''task'', ''project'', ''goal'']),
      (''technology'', [''ai'', ''machine learning'', ''tech'', ''computer'', ''digital'']),
      (''business'', [''business'', ''company'', ''market'', ''strategy'', ''finance'']),
      (''education'', [''learn'', ''teach'', ''course'', ''study'', ''tutorial'', ''explain'']),
      (''science'', [''science'', ''research'', ''experiment'', ''hypothesis'', ''theory''])]"

text \<open>\<open>set.update\<close> on the list that stands for a set.\<close>

definition set_update :: "string list \<Rightarrow> string list \<Rightarrow> string list" where
  "set_update xs ys = xs @ filter (\<lambda>y. y \<notin> set xs) (remdups ys)"

text \<open>
  \<open>_extract_topics\<close>. The append to \<open>topic_history\<close> changes the list object in place; the
  truncation to the last 50 records binds the attribute to a new list. The topics of a record
  are \<open>list(new_topics)\<close>, whose order Python does not fix; they are listed here in the order
  of the table.
\<close>

definition extract_topics ::
  "timestamp \<Rightarrow> heap \<Rightarrow> conversation_context \<Rightarrow> string \<Rightarrow> heap \<times> conversation_context"
where
  "extract_topics now h c message =
     (let message_lower = lower message;
          new_topics = map fst (filter (\<lambda>(topic, keywords). any_in keywords message_lower)
                                  topic_keywords);
          c1 = c \<lparr> current_topics := set_update (current_topics c) new_topics \<rparr>;
          r = topic_history c1;
          h1 = (if new_topics \<noteq> []
                then h \<lparr> history_at := (history_at h)(r := history_at h r @
                          [\<lparr> tr_timestamp = now, tr_topics = new_topics,
                             tr_message_snippet = take 100 message \<rparr>]) \<rparr>
                else h)
      in if length (history_at h1 r) > 50
         then (h1 \<lparr> history_at := (history_at h1)(fresh h1 := slice_last 50 (history_at h1 r)),
                    fresh := Suc (fresh h1) \<rparr>,
               c1 \<lparr> topic_history := fresh h1 \<rparr>)
         else (h1, c1))"


text \<open>\<open>str(n)\<close> for a natural number, as the f-string needs it.\<close>

fun str_nat :: "nat \<Rightarrow> string" where
  "str_nat n = (if n < 10 then [char_of (48 + n)]
                else str_nat (n div 10) @ [char_of (48 + n mod 10)])"

declare str_nat.simps [simp del]

definition task_indicators :: "string list" where
  "task_indicators = [''help me'', ''i need to'', ''can you'', ''please'', ''task'', ''project'']"

definition preference_indicators :: "string list" where
  "preference_indicators = [''i prefer'', ''i like'', ''i don't like'', ''i want'', ''i need'']"

text \<open>The loop over \<open>preference_indicators\<close> in \<open>_update_conversation_state\<close>.\<close>

fun store_preferences ::
  "timestamp \<Rightarrow> string \<Rightarrow> string \<Rightarrow> string list \<Rightarrow> (string \<times> preference) list
   \<Rightarrow> (string \<times> preference) list"
where
  "store_preferences now user_message message_lower [] prefs = prefs"
| "store_preferences now user_message message_lower (indicator # rest) prefs =
     (if contains message_lower indicator
      then store_preferences now user_message message_lower rest
             (AList.update (''preference_'' @ str_nat (length prefs))
                \<lparr> statement = user_message, pref_timestamp = now \<rparr> prefs)
      else store_preferences now user_message message_lower rest prefs)"

text \<open>\<open>_update_conversation_state\<close>: the state dictionary is changed in place.\<close>

definition update_conversation_state ::
  "timestamp \<Rightarrow> heap \<Rightarrow> conversation_context \<Rightarrow> string \<Rightarrow> string \<Rightarrow> heap"
where
  "update_conversation_state now h c user_message assistant_response =
     (let message_lower = lower user_message;
          r = conversation_state c;
          s0 = state_at h r;
          s1 = (if any_in task_indicators message_lower \<and> length user_message > 20
                then s0 \<lparr> current_task := Some (take 200 user_message) \<rparr> else s0);
          s2 = s1 \<lparr> user_preferences :=
                      store_preferences now user_message message_lower preference_indicators
                        (user_preferences s1) \<rparr>;
          s3 = (if any_in [''creative'', ''brainstorm'', ''idea''] message_lower
                then s2 \<lparr> conversation_mode := ''creative'' \<rparr>
                else if any_in [''analyze'', ''research'', ''study''] message_lower
                then s2 \<lparr> conversation_mode := ''analytical'' \<rparr>
                else if any_in [''plan'', ''organize'', ''task''] message_lower
                then s2 \<lparr> conversation_mode := ''planning'' \<rparr>
                else if any_in [''code'', ''program'', ''debug''] message_lower
                then s2 \<lparr> conversation_mode := ''technical'' \<rparr>
                else s2)
      in h \<lparr> state_at := (state_at h)(r := s3) \<rparr>)"

text \<open>
  \<open>add_interaction\<close>. \<open>now\<close> stands for the clock readings taken during the call. The
  entry is appended before anything else is touched.
\<close>

definition add_interaction ::
  "timestamp \<Rightarrow> heap \<Rightarrow> conversation_context \<Rightarrow> string \<Rightarrow> string \<Rightarrow> string
   \<Rightarrow> pydict option \<Rightarrow> heap \<times> conversation_context"
where
  "add_interaction now h c user_message assistant_response context_type metadata =
     (let entry = \<lparr> ce_timestamp = now, ce_user_message = user_message,
                    ce_assistant_response = assistant_response,
                    ce_agent_name = agent_name c, ce_context_type = context_type,
                    ce_metadata = (case metadata of None \<Rightarrow> [] | Some m \<Rightarrow> m) \<rparr>;
          c1 = c \<lparr> recent_memory := deque_append (max_memory_size c) (recent_memory c) entry \<rparr>;
          m = context_metadata c1;
          h1 = h \<lparr> metadata_at := (metadata_at h)(m := (metadata_at h m)
                     \<lparr> total_interactions := total_interactions (metadata_at h m) + 1,
                       last_activity := Some now \<rparr>) \<rparr>;
          (h2, c2) = extract_topics now h1 c1 user_message;
          h3 = update_conversation_state now h2 c2 user_message assistant_response
      in (h3, c2))"




text \<open>
  \<open>clear_context\<close>: the deque, the topic set and the topic history list are emptied in place,
  the state is a new dictionary, two keys of the metadata dictionary are reset in place.
\<close>

definition clear_context :: "heap \<Rightarrow> conversation_context \<Rightarrow> heap \<times> conversation_context" where
  "clear_context h c =
     (let s = fresh h; m = context_metadata c
      in (h \<lparr> history_at := (history_at h)(topic_history c := []),
              state_at := (state_at h)(s := initial_state),
              metadata_at := (metadata_at h)(m := (metadata_at h m)
                 \<lparr> total_interactions := 0, last_activity := None \<rparr>),
              fresh := Suc s \<rparr>,
          c \<lparr> recent_memory := [], current_topics := [], conversation_state := s \<rparr>))"

text \<open>
  The dictionary that \<open>export_context\<close> returns and \<open>import_context\<close> reads with
  \<open>get\<close>: every key may be missing. Three values are object identities.
\<close>

record context_data =
  x_agent_name :: "string option"
  x_context_metadata :: "ref option"
  x_recent_memory :: "entry_dict list option"
  x_current_topics :: "string list option"
  x_topic_history :: "ref option"
  x_conversation_state :: "ref option"
  x_exported_at :: "timestamp option"

definition export_context :: "timestamp \<Rightarrow> heap \<Rightarrow> conversation_context \<Rightarrow> context_data" where
  "export_context now h c =
     \<lparr> x_agent_name = Some (agent_name c),
       x_context_metadata = Some (context_metadata c),
       x_recent_memory = Some (map asdict (recent_memory c)),
       x_current_topics = Some (current_topics c),
       x_topic_history = Some (topic_history c),
       x_conversation_state = Some (conversation_state c),
       x_exported_at = Some now \<rparr>"

text \<open>
  The loop of \<open>import_context\<close> over \<open>memory_data\<close>. A dictionary that \<open>ContextEntry\<close>
  rejects raises; the entries appended before it stay in the deque.
\<close>

fun import_entries ::
  "nat \<Rightarrow> context_entry list \<Rightarrow> entry_dict list \<Rightarrow> error option \<times> context_entry list"
where
  "import_entries maxlen mem [] = (None, mem)"
| "import_entries maxlen mem (entry_dict # rest) =
     (case ContextEntry entry_dict of
        Inl e \<Rightarrow> (Some e, mem)
      | Inr entry \<Rightarrow> import_entries maxlen (deque_append maxlen mem entry) rest)"

text \<open>
  \<open>import_context\<close>. An exception in the loop is caught by the handler of the method, which
  leaves the topics, the topic history and the state as \<open>clear_context\<close> left them.
\<close>

definition import_context ::
  "heap \<Rightarrow> conversation_context \<Rightarrow> context_data \<Rightarrow> heap \<times> conversation_context"
where
  "import_context h c data =
     (let (h1, c1) = clear_context h c;
          c2 = c1 \<lparr> context_metadata := (case x_context_metadata data of
                                            None \<Rightarrow> context_metadata c1 | Some r \<Rightarrow> r) \<rparr>;
          memory_data = (case x_recent_memory data of None \<Rightarrow> [] | Some ds \<Rightarrow> ds);
          (raised, mem) = import_entries (max_memory_size c2) (recent_memory c2) memory_data;
          c3 = c2 \<lparr> recent_memory := mem \<rparr>
      in case raised of
           Some e \<Rightarrow> (h1, c3)
         | None \<Rightarrow>
             let c4 = c3 \<lparr> current_topics := remdups (case x_current_topics data of
                                                         None \<Rightarrow> [] | Some ts \<Rightarrow> ts) \<rparr>
             in case x_topic_history data of
                  None \<Rightarrow>
                    (h1 \<lparr> history_at := (history_at h1)(fresh h1 := []),
                          fresh := Suc (fresh h1) \<rparr>,
                     c4 \<lparr> topic_history := fresh h1,
                          conversation_state := (case x_conversation_state data of
                             None \<Rightarrow> conversation_state c4 | Some r \<Rightarrow> r) \<rparr>)
                | Some t \<Rightarrow>
                    (h1,
                     c4 \<lparr> topic_history := t,
                          conversation_state := (case x_conversation_state data of
                             None \<Rightarrow> conversation_state c4 | Some r \<Rightarrow> r) \<rparr>))"

text \<open>A recorded interaction: the arguments of one call of \<open>add_interaction\<close> and its clock.\<close>

record interaction =
  i_now :: timestamp
  i_user_message :: string
  i_assistant_response :: string
  i_context_type :: string
  i_metadata :: "pydict option"


text \<open>The entry that \<open>add_interaction\<close> builds in a context of agent \<open>name\<close>.\<close>

definition entry_of :: "string \<Rightarrow> interaction \<Rightarrow> context_entry" where
  "entry_of name i =
     \<lparr> ce_timestamp = i_now i, ce_user_message = i_user_message i,
       ce_assistant_response = i_assistant_response i, ce_agent_name = name,
       ce_context_type = i_context_type i,
       ce_metadata = (case i_metadata i of None \<Rightarrow> [] | Some m \<Rightarrow> m) \<rparr>"

text \<open>The last \<open>n\<close> elements of a list, oldest first.\<close>

definition lastn :: "nat \<Rightarrow> 'a list \<Rightarrow> 'a list" where
  "lastn n xs = drop (length xs - n) xs"


text \<open>Concrete values on which the theorems below are instantiated.\<close>

definition empty_heap :: heap where
  "empty_heap =
     \<lparr> metadata_at = (\<lambda>r. \<lparr> created_at = 0, cm_agent_name = [], total_interactions = 0,
                             last_activity = None \<rparr>),
       history_at = (\<lambda>r. []), state_at = (\<lambda>r. initial_state), fresh = 0 \<rparr>"

definition demo_interaction :: "nat \<Rightarrow> string \<Rightarrow> interaction" where
  "demo_interaction t u =
     \<lparr> i_now = t, i_user_message = u, i_assistant_response = ''ok'',
       i_context_type = ''conversation'', i_metadata = None \<rparr>"

definition demo_context :: "heap \<times> conversation_context" where
  "demo_context =
     (case init_context 100 0 empty_heap ''coordinator'' (Some 2) of
        Inr hc \<Rightarrow> hc
      | Inl e \<Rightarrow> (empty_heap, \<lparr> agent_name = [], max_memory_size = 0, recent_memory = [],
                     current_topics = [], topic_history = 0, context_metadata = 0,
                     conversation_state = 0 \<rparr>))"


definition demo_entry :: "nat \<Rightarrow> string \<Rightarrow> context_entry" where
  "demo_entry t u = entry_of ''research'' (demo_interaction t u)"

definition demo_full_context :: conversation_context where
  "demo_full_context =
     \<lparr> agent_name = ''research'', max_memory_size = 3,
       recent_memory = [demo_entry 1 ''A'', demo_entry 2 ''B'', demo_entry 3 ''C''],
       current_topics = [''research''], topic_history = 7, context_metadata = 7,
       conversation_state = 7 \<rparr>"

section \<open>Router\<close>

text \<open>
  The dataclass \<open>RoutingDecision\<close>. Python floats are modelled as real numbers: the sums,
  products and comparisons below are exact.
\<close>

record routing_decision =
  rd_agent_name :: string
  rd_confidence :: real
  rd_reasoning :: string
  rd_alternative_agents :: "(string \<times> real) list option"

text \<open>The keys of \<open>AgentRouter.agents\<close>, in the order of the dictionary.\<close>

definition agents :: "string list" where
  "agents = [''research'', ''code'', ''creative'', ''task'']"

definition agent_keywords :: "(string \<times> string list) list" where
  "agent_keywords =
     [(''research'',
        [''search'', ''find'', ''research'', ''information'', ''facts'', ''data'',
         ''what is'', ''who is'', ''when'', ''where'', ''why'', ''how many'',
         ''statistics'', ''analysis'', ''study'', ''investigate'', ''compare'']),
      (''code'',
        [''code'', ''program'', ''script'', ''function'', ''debug'', ''fix'',
         ''python'', ''javascript'', ''java'', ''programming'', ''development'',
         ''algorithm'', ''implementation'', ''software'', ''app'', ''bug'']),
      (''creative'',
        [''create'', ''write'', ''story'', ''idea'', ''brainstorm'', ''creative'',
         ''content'', ''blog'', ''article'', ''poem'', ''design'', ''imagine'',
         ''innovative'', ''original'', ''artistic'', ''inspiration'']),
      (''task'',
        [''plan'', ''organize'', ''schedule'', ''manage'', ''project'', ''task'',
         ''timeline'', ''deadline'', ''coordinate'', ''prioritize'', ''workflow'',
         ''goal'', ''objective'', ''strategy'', ''breakdown'', ''milestone''])]"

definition fallback_order :: "string list" where
  "fallback_order = [''research'', ''creative'', ''task'', ''code'']"

text \<open>\<open>d.get(k, default)\<close> on a dictionary kept as a list of pairs.\<close>

definition dict_get :: "('k \<times> 'v) list \<Rightarrow> 'k \<Rightarrow> 'v \<Rightarrow> 'v" where
  "dict_get d k dflt = (case map_of d k of None \<Rightarrow> dflt | Some v \<Rightarrow> v)"

text \<open>
  \<open>agent.can_handle(message, context)\<close> of the agent registered under a name: the scorers are
  collaborators of the router, so they are a parameter, a function that returns a score or
  raises.
\<close>

type_synonym scorer = "string \<Rightarrow> string \<Rightarrow> context \<Rightarrow> error + real"

text \<open>The inner loop of \<open>_calculate_keyword_scores\<close>: \<open>score += 0.1\<close> per keyword found.\<close>

fun keyword_loop :: "string \<Rightarrow> string list \<Rightarrow> real \<Rightarrow> real" where
  "keyword_loop message_lower [] score = score"
| "keyword_loop message_lower (keyword # rest) score =
     keyword_loop message_lower rest
       (if contains message_lower keyword then score + 0.1 else score)"

definition calculate_keyword_scores :: "string \<Rightarrow> (string \<times> real) list" where
  "calculate_keyword_scores message =
     (let message_lower = lower message
      in map (\<lambda>(agent_name, keywords).
                (agent_name, min (keyword_loop message_lower keywords 0) 1))
           agent_keywords)"

text \<open>\<open>_get_fallback_agent\<close>; the default is \<open>fallback_order[0]\<close>.\<close>

definition get_fallback_agent :: "string \<Rightarrow> string" where
  "get_fallback_agent message =
     (let message_lower = lower message
      in if any_in [''what'', ''how'', ''why'', ''explain''] message_lower then ''research''
         else if any_in [''create'', ''write'', ''generate''] message_lower then ''creative''
         else if any_in [''plan'', ''organize'', ''schedule''] message_lower then ''task''
         else (case fallback_order of first # rest \<Rightarrow> first | [] \<Rightarrow> []))"

text \<open>The loop of \<open>route_message\<close> over the agents, with its handler: a raise scores 0.0.\<close>

definition agent_scores_of :: "scorer \<Rightarrow> string \<Rightarrow> context \<Rightarrow> (string \<times> real) list" where
  "agent_scores_of can_handle message ctx =
     map (\<lambda>agent_name. (agent_name,
            (case can_handle agent_name message ctx of
               Inr score \<Rightarrow> score
             | Inl e \<Rightarrow> 0)))
       agents"

definition combined_scores_of :: "scorer \<Rightarrow> string \<Rightarrow> context \<Rightarrow> (string \<times> real) list" where
  "combined_scores_of can_handle message ctx =
     (let agent_scores = agent_scores_of can_handle message ctx;
          keyword_scores = calculate_keyword_scores message
      in map (\<lambda>agent_name.
                (let agent_score = dict_get agent_scores agent_name 0;
                     keyword_score = dict_get keyword_scores agent_name 0
                 in (agent_name, (agent_score * 0.7) + (keyword_score * 0.3))))
           agents)"

text \<open>
  \<open>sorted(combined_scores.items(), key=lambda x: x[1], reverse=True)\<close>: a stable sort by
  descending score, so agents of equal score stay in the order of the registry.
\<close>

definition sorted_by_score :: "(string \<times> real) list \<Rightarrow> (string \<times> real) list" where
  "sorted_by_score items = sort_key (\<lambda>x. - snd x) items"

text \<open>
  \<open>route_message\<close>. \<open>format_2f\<close> stands for the format \<open>{confidence:.2f}\<close> of the f-string.
  No statement outside the guarded scorer call can raise, so every path ends in \<open>Inr\<close>.
\<close>

definition route_message ::
  "scorer \<Rightarrow> (real \<Rightarrow> string) \<Rightarrow> string \<Rightarrow> context \<Rightarrow> string option
   \<Rightarrow> error + routing_decision"
where
  "route_message can_handle format_2f message ctx preferred_agent =
     (case (case preferred_agent of
              Some p \<Rightarrow> if p \<noteq> [] \<and> p \<in> set agents then Some p else None
            | None \<Rightarrow> None) of
        Some p \<Rightarrow>
          Inr \<lparr> rd_agent_name = p, rd_confidence = 1,
                rd_reasoning = ''User explicitly requested '' @ p @ '' agent'',
                rd_alternative_agents = None \<rparr>
      | None \<Rightarrow>
          let sorted_agents = sorted_by_score (combined_scores_of can_handle message ctx);
              alternatives = filter (\<lambda>(name, score). score > 0.1) (take 2 (drop 1 sorted_agents))
          in (case sorted_agents of
                [] \<Rightarrow>
                  let selected_agent = get_fallback_agent message
                  in Inr \<lparr> rd_agent_name = selected_agent, rd_confidence = 0.5,
                           rd_reasoning = ''No agent showed strong confidence, using fallback: ''
                                            @ selected_agent,
                           rd_alternative_agents = Some alternatives \<rparr>
              | (best_name, best_score) # others \<Rightarrow>
                  if best_score < 0.1
                  then
                    let selected_agent = get_fallback_agent message
                    in Inr \<lparr> rd_agent_name = selected_agent, rd_confidence = 0.5,
                             rd_reasoning = ''No agent showed strong confidence, using fallback: ''
                                              @ selected_agent,
                             rd_alternative_agents = Some alternatives \<rparr>
                  else
                    Inr \<lparr> rd_agent_name = best_name, rd_confidence = best_score,
                          rd_reasoning = ''Selected based on highest confidence score: ''
                                           @ format_2f best_score,
                          rd_alternative_agents = Some alternatives \<rparr>))"

text \<open>
  The quantities of the specification: the score an agent reports (0.0 when its scorer
  raises), 0.1 per matched keyword of the static table capped at 1.0, and their weighted sum.
\<close>

definition spec_agent_score :: "scorer \<Rightarrow> string \<Rightarrow> context \<Rightarrow> string \<Rightarrow> real" where
  "spec_agent_score can_handle message ctx a =
     (case can_handle a message ctx of Inr s \<Rightarrow> s | Inl e \<Rightarrow> 0)"

definition spec_keyword_score :: "string \<Rightarrow> string \<Rightarrow> real" where
  "spec_keyword_score message a =
     min (0.1 * real (length (filter (\<lambda>k. sublist k (lower message))
                                (dict_get agent_keywords a [])))) 1"

definition spec_combined :: "scorer \<Rightarrow> string \<Rightarrow> context \<Rightarrow> string \<Rightarrow> real" where
  "spec_combined can_handle message ctx a =
     0.7 * spec_agent_score can_handle message ctx a + 0.3 * spec_keyword_score message a"

text \<open>A scorer that never raises: 0.0 where the given one raises.\<close>

definition degraded :: "scorer \<Rightarrow> scorer" where
  "degraded can_handle a message ctx =
     (case can_handle a message ctx of Inr s \<Rightarrow> Inr s | Inl e \<Rightarrow> Inr 0)"

text \<open>
  A concrete scorer for the instances below, and the number format on the one score that they
  render, 0.69.
\<close>

definition demo_scorer :: scorer where
  "demo_scorer a message ctx =
     (if a = ''code'' then Inl (Raised Exception ''scorer failed'')
      else if a = ''creative'' then Inr 0.9 else Inr 0.2)"

definition demo_format :: "real \<Rightarrow> string" where
  "demo_format x = ''0.69''"

section \<open>Durable store\<close>

text \<open>The dataclass \<open>ConversationEntry\<close> of the store.\<close>

record conversation_entry =
  conv_session_id :: string
  conv_timestamp :: timestamp
  conv_user_message :: string
  conv_agent_response :: string
  conv_agent_used :: string
  conv_tools_used :: "string list"
  conv_confidence :: real
  conv_routing_confidence :: real
  conv_metadata :: pydict

text \<open>
  The dictionary handed to \<open>store_conversation\<close>. The first five keys are read with
  \<open>conversation_entry[key]\<close>, a \<open>KeyError\<close> when missing; the other four with \<open>get\<close>
  and a default.
\<close>

record conversation_dict =
  cd_session_id :: "string option"
  cd_timestamp :: "timestamp option"
  cd_user_message :: "string option"
  cd_agent_response :: "string option"
  cd_agent_used :: "string option"
  cd_tools_used :: "string list option"
  cd_confidence :: "real option"
  cd_routing_confidence :: "real option"
  cd_metadata :: "pydict option"

definition ConversationEntry :: "conversation_dict \<Rightarrow> error + conversation_entry" where
  "ConversationEntry d =
     (case (cd_session_id d, cd_timestamp d, cd_user_message d, cd_agent_response d,
            cd_agent_used d) of
        (Some sid, Some t, Some u, Some r, Some a) \<Rightarrow>
          Inr \<lparr> conv_session_id = sid, conv_timestamp = t, conv_user_message = u,
                conv_agent_response = r, conv_agent_used = a,
                conv_tools_used = (case cd_tools_used d of None \<Rightarrow> [] | Some ts \<Rightarrow> ts),
                conv_confidence = (case cd_confidence d of None \<Rightarrow> 0 | Some c \<Rightarrow> c),
                conv_routing_confidence =
                  (case cd_routing_confidence d of None \<Rightarrow> 0 | Some c \<Rightarrow> c),
                conv_metadata = (case cd_metadata d of None \<Rightarrow> [] | Some m \<Rightarrow> m) \<rparr>
      | _ \<Rightarrow> Inl (Raised KeyError []))"

text \<open>A row of the table \<open>session_metadata\<close>, whose primary key is the session id.\<close>

record session_row =
  sm_created_at :: timestamp
  sm_last_activity :: timestamp
  sm_message_count :: int

text \<open>The content of a session file: a JSON list of entries, or something \<open>json.load\<close> rejects.\<close>

datatype file_content = Corrupt | Entries "conversation_entry list"

text \<open>
  The persistent state: the rows of the table \<open>conversations\<close> in the order of their ids, the
  table \<open>session_metadata\<close>, and the session files by session id.
\<close>

record storage =
  conversations :: "conversation_entry list"
  session_metadata :: "string \<Rightarrow> session_row option"
  session_files :: "string \<Rightarrow> file_content option"

text \<open>
  What the outside world does to the I/O of one \<open>store_conversation\<close> call: each operation
  succeeds (\<open>None\<close>) or raises. A database transaction that raises is rolled back. A file
  whose opening for writing raises is left as it was; one whose \<open>json.dump\<close> raises has
  been truncated already.
\<close>

record io_outcome =
  io_db_insert :: "error option"
  io_file_read :: "error option"
  io_file_open :: "error option"
  io_file_dump :: "error option"
  io_meta_update :: "error option"

text \<open>\<open>_store_in_database\<close>: the guarded insert, and the handler that logs and returns.\<close>

definition insert_conversation ::
  "io_outcome \<Rightarrow> storage \<Rightarrow> conversation_entry \<Rightarrow> error + storage" where
  "insert_conversation io st entry =
     (case io_db_insert io of
        Some e \<Rightarrow> Inl e
      | None \<Rightarrow> Inr (st \<lparr> conversations := conversations st @ [entry] \<rparr>))"

definition store_in_database :: "io_outcome \<Rightarrow> storage \<Rightarrow> conversation_entry \<Rightarrow> storage" where
  "store_in_database io st entry =
     (case insert_conversation io st entry of Inl e \<Rightarrow> st | Inr st' \<Rightarrow> st')"

text \<open>
  \<open>_store_in_session_file\<close>. \<open>max_entries\<close> is \<open>settings.max_conversation_history\<close>.
  The body returns the exception it raised, if any, and the files as it left them.
\<close>

definition write_session_file ::
  "io_outcome \<Rightarrow> int \<Rightarrow> storage \<Rightarrow> conversation_entry \<Rightarrow> error option \<times> storage" where
  "write_session_file io max_entries st entry =
     (let sid = conv_session_id entry;
          loaded = (case session_files st sid of
                      None \<Rightarrow> []
                    | Some Corrupt \<Rightarrow> []
                    | Some (Entries es) \<Rightarrow>
                        (case io_file_read io of None \<Rightarrow> es | Some e \<Rightarrow> []));
          appended = loaded @ [entry];
          session_data = (if int (length appended) > max_entries
                          then slice_last max_entries appended else appended)
      in case io_file_open io of
           Some e \<Rightarrow> (Some e, st)
         | None \<Rightarrow>
             (case io_file_dump io of
                Some e \<Rightarrow> (Some e, st \<lparr> session_files := (session_files st)(sid \<mapsto> Corrupt) \<rparr>)
              | None \<Rightarrow>
                  (None, st \<lparr> session_files :=
                               (session_files st)(sid \<mapsto> Entries session_data) \<rparr>)))"

definition store_in_session_file ::
  "io_outcome \<Rightarrow> int \<Rightarrow> storage \<Rightarrow> conversation_entry \<Rightarrow> storage" where
  "store_in_session_file io max_entries st entry =
     snd (write_session_file io max_entries st entry)"

text \<open>\<open>_update_session_metadata\<close>: update the row of the session, or insert it.\<close>

definition upsert_session ::
  "io_outcome \<Rightarrow> timestamp \<Rightarrow> storage \<Rightarrow> string \<Rightarrow> error + storage" where
  "upsert_session io now st session_id =
     (case io_meta_update io of
        Some e \<Rightarrow> Inl e
      | None \<Rightarrow>
          (case session_metadata st session_id of
             Some row \<Rightarrow>
               Inr (st \<lparr> session_metadata := (session_metadata st)(session_id \<mapsto>
                      row \<lparr> sm_last_activity := now,
                            sm_message_count := sm_message_count row + 1 \<rparr>) \<rparr>)
           | None \<Rightarrow>
               Inr (st \<lparr> session_metadata := (session_metadata st)(session_id \<mapsto>
                      \<lparr> sm_created_at = now, sm_last_activity = now,
                        sm_message_count = 1 \<rparr>) \<rparr>)))"

definition update_session_metadata ::
  "io_outcome \<Rightarrow> timestamp \<Rightarrow> storage \<Rightarrow> string \<Rightarrow> storage" where
  "update_session_metadata io now st session_id =
     (case upsert_session io now st session_id of Inl e \<Rightarrow> st | Inr st' \<Rightarrow> st')"

text \<open>
  \<open>store_conversation\<close>, the \<open>persist\<close> of the specification. \<open>now\<close> is the clock read
  by the metadata update. The handler of the method catches what the construction of the
  entry raises; the three writes have caught their own exceptions.
\<close>

definition store_conversation ::
  "io_outcome \<Rightarrow> int \<Rightarrow> timestamp \<Rightarrow> storage \<Rightarrow> conversation_dict \<Rightarrow> storage" where
  "store_conversation io max_entries now st d =
     (case ConversationEntry d of
        Inl e \<Rightarrow> st
      | Inr entry \<Rightarrow>
          let st1 = store_in_database io st entry;
              st2 = store_in_session_file io max_entries st1 entry;
              st3 = update_session_metadata io now st2 (conv_session_id entry)
          in st3)"

text \<open>One \<open>persist\<close> call with its circumstances, and a sequence of them.\<close>

record persist_op =
  op_entry :: conversation_dict
  op_io :: io_outcome
  op_now :: timestamp

fun persist_all :: "int \<Rightarrow> storage \<Rightarrow> persist_op list \<Rightarrow> storage" where
  "persist_all max_entries st [] = st"
| "persist_all max_entries st (op # rest) =
     persist_all max_entries
       (store_conversation (op_io op) max_entries (op_now op) st (op_entry op)) rest"

definition empty_storage :: storage where
  "empty_storage = \<lparr> conversations = [], session_metadata = Map.empty,
                      session_files = Map.empty \<rparr>"

text \<open>
  The invariant of the specification: every entry of the relational index has a metadata row
  for its session, whose \<open>message_count\<close> is at least the number of index entries of the
  session and whose \<open>last_activity\<close> is at least the timestamp of the entry.
\<close>

definition entries_of :: "storage \<Rightarrow> string \<Rightarrow> conversation_entry list" where
  "entries_of st sid = filter (\<lambda>x. conv_session_id x = sid) (conversations st)"

definition index_invariant :: "storage \<Rightarrow> bool" where
  "index_invariant st =
     list_all (\<lambda>e. case session_metadata st (conv_session_id e) of
                      None \<Rightarrow> False
                    | Some row \<Rightarrow>
                        int (length (entries_of st (conv_session_id e))) \<le> sm_message_count row
                        \<and> conv_timestamp e \<le> sm_last_activity row)
       (conversations st)"

text \<open>
  The form of the invariant that every \<open>persist\<close> call keeps: row by row, the count and
  the last activity dominate the entries of the session, and no entry lacks its row.
\<close>

definition store_inv :: "storage \<Rightarrow> bool" where
  "store_inv st =
     ((\<forall>e \<in> set (conversations st). session_metadata st (conv_session_id e) \<noteq> None)
      \<and> (\<forall>sid row. session_metadata st sid = Some row \<longrightarrow>
             int (length (entries_of st sid)) \<le> sm_message_count row
             \<and> (\<forall>e \<in> set (entries_of st sid). conv_timestamp e \<le> sm_last_activity row)))"

text \<open>Concrete I/O circumstances and a concrete entry, for the instances below.\<close>

definition io_ok :: io_outcome where
  "io_ok = \<lparr> io_db_insert = None, io_file_read = None, io_file_open = None,
             io_file_dump = None, io_meta_update = None \<rparr>"

definition io_meta_fails :: io_outcome where
  "io_meta_fails = io_ok \<lparr> io_meta_update := Some (Raised DatabaseError ''database is locked'') \<rparr>"

definition io_all_fail :: io_outcome where
  "io_all_fail =
     \<lparr> io_db_insert = Some (Raised DatabaseError ''unable to open database file''),
       io_file_read = Some (Raised OSError []), io_file_open = Some (Raised OSError []),
       io_file_dump = Some (Raised OSError []),
       io_meta_update = Some (Raised DatabaseError ''unable to open database file'') \<rparr>"

definition demo_dict :: "string \<Rightarrow> timestamp \<Rightarrow> conversation_dict" where
  "demo_dict sid t =
     \<lparr> cd_session_id = Some sid, cd_timestamp = Some t, cd_user_message = Some ''hello'',
       cd_agent_response = Some ''hi'', cd_agent_used = Some ''research'',
       cd_tools_used = Some [], cd_confidence = Some 0.8, cd_routing_confidence = Some 0.5,
       cd_metadata = Some [] \<rparr>"

definition demo_ops :: "persist_op list" where
  "demo_ops =
     [\<lparr> op_entry = demo_dict ''s1'' 4, op_io = io_ok, op_now = 5 \<rparr>,
      \<lparr> op_entry = demo_dict ''s1'' 6,
        op_io = io_ok \<lparr> io_db_insert := Some (Raised DatabaseError ''database is locked'') \<rparr>,
        op_now = 7 \<rparr>,
      \<lparr> op_entry = demo_dict ''s2'' 8, op_io = io_ok, op_now = 8 \<rparr>]"

section \<open>Coordinator\<close>

text \<open>The pydantic model \<open>AgentResponse\<close>.\<close>

record agent_response =
  ar_content :: string
  ar_agent_name :: string
  ar_tools_used :: "string list"
  ar_confidence :: real
  ar_reasoning :: "string option"
  ar_metadata :: pydict

text \<open>
  \<open>agent.process_message(message, context)\<close> of the agent registered under a name. The
  agents are collaborators of the coordinator: each invocation returns a response or raises.
\<close>

type_synonym agent_run = "string \<Rightarrow> string \<Rightarrow> context \<Rightarrow> error + agent_response"

text \<open>
  The collaborators of the orchestration layer: the scorers and the handlers of the agents,
  the number format of the f-string and \<open>json.dumps(..., indent=2)\<close>.
\<close>

record collaborators =
  co_can_handle :: scorer
  co_process :: agent_run
  co_format_2f :: "real \<Rightarrow> string"
  co_json_dumps :: "pyval \<Rightarrow> string"

text \<open>\<open>AgentRouter.get_agent\<close>: the agent under the name, \<open>None\<close> for an unknown name.\<close>

definition get_agent :: "string \<Rightarrow> string option" where
  "get_agent name = (if name \<in> set agents then Some name else None)"

definition capability_keywords :: "(string \<times> string list) list" where
  "capability_keywords =
     [(''research'', [''research'', ''find'', ''information'', ''data'', ''facts'', ''search'']),
      (''code'', [''code'', ''program'', ''implement'', ''development'', ''software'']),
      (''creative'', [''create'', ''write'', ''design'', ''creative'', ''content'', ''idea'']),
      (''task'', [''plan'', ''organize'', ''manage'', ''schedule'', ''coordinate''])]"

text \<open>\<open>_identify_secondary_agents\<close>.\<close>

definition identify_secondary_agents :: "string \<Rightarrow> string \<Rightarrow> string list" where
  "identify_secondary_agents message primary =
     (let message_lower = lower message;
          secondary_agents =
            map fst (filter (\<lambda>(agent_name, keywords).
                               agent_name \<noteq> primary \<and> any_in keywords message_lower)
                       capability_keywords)
      in take 2 secondary_agents)"

text \<open>A step of a collaboration plan, and the plan.\<close>

record step =
  step_agent :: string
  step_task :: string
  step_order :: nat

record collaboration_plan =
  plan_primary_agent :: string
  plan_secondary_agents :: "string list"
  plan_steps :: "step list"
  plan_collaboration_type :: string

text \<open>
  The loop of \<open>_create_collaboration_plan\<close> over \<open>enumerate(secondary_agents)\<close>; the first
  argument is the index \<open>i\<close>.
\<close>

fun secondary_steps :: "nat \<Rightarrow> string \<Rightarrow> string list \<Rightarrow> step list" where
  "secondary_steps i message [] = []"
| "secondary_steps i message (agent # rest) =
     (if agent = ''research''
      then [\<lparr> step_agent = agent,
               step_task = ''Research background information related to: '' @ message,
               step_order = i + 1 \<rparr>]
      else if agent = ''task''
      then [\<lparr> step_agent = agent,
               step_task = ''Create an implementation plan for: '' @ message,
               step_order = i + 1 \<rparr>]
      else if agent = ''code''
      then [\<lparr> step_agent = agent,
               step_task = ''Analyze technical requirements for: '' @ message,
               step_order = i + 1 \<rparr>]
      else if agent = ''creative''
      then [\<lparr> step_agent = agent,
               step_task = ''Generate creative concepts for: '' @ message,
               step_order = i + 1 \<rparr>]
      else [])
     @ secondary_steps (i + 1) message rest"

definition create_collaboration_plan ::
  "string \<Rightarrow> string \<Rightarrow> string list \<Rightarrow> collaboration_plan" where
  "create_collaboration_plan message primary secondary_agents =
     (let steps = secondary_steps 0 message secondary_agents;
          steps' = steps @
            [\<lparr> step_agent = primary,
               step_task = ''Synthesize information and provide comprehensive response to: ''
                             @ message,
               step_order = length steps + 1 \<rparr>]
      in \<lparr> plan_primary_agent = primary, plan_secondary_agents = secondary_agents,
           plan_steps = steps', plan_collaboration_type = ''sequential'' \<rparr>)"

text \<open>
  The loop of \<open>_handle_collaboration\<close> over the steps. The results are the dictionary
  \<open>collaboration_results\<close>. The call of the agent is not guarded inside the loop: an
  exception leaves the loop, and the steps after it are not run.
\<close>

fun execute_steps ::
  "agent_run \<Rightarrow> context \<Rightarrow> step list \<Rightarrow> (string \<times> agent_response) list
   \<Rightarrow> error + (string \<times> agent_response) list"
where
  "execute_steps run ctx [] results = Inr results"
| "execute_steps run ctx (s # rest) results =
     (if step_agent s \<noteq> [] \<and> step_task s \<noteq> []
      then (case get_agent (step_agent s) of
              None \<Rightarrow> execute_steps run ctx rest results
            | Some agent \<Rightarrow>
                (case run agent (step_task s) ctx of
                   Inl e \<Rightarrow> Inl e
                 | Inr step_result \<Rightarrow>
                     execute_steps run ctx rest
                       (AList.update (step_agent s) step_result results)))
      else execute_steps run ctx rest results)"

definition newline :: string where
  "newline = [CHR 0x0A]"

text \<open>The dictionary \<open>synthesis_context["collaboration_results"]\<close>.\<close>

definition synthesis_context :: "(string \<times> agent_response) list \<Rightarrow> pyval" where
  "synthesis_context collaboration_results =
     VDict (map (\<lambda>(agent_name, result).
                   (agent_name,
                    VDict [(''content'', VStr (ar_content result)),
                           (''tools_used'', VList (map VStr (ar_tools_used result))),
                           (''confidence'', VReal (ar_confidence result))]))
              collaboration_results)"

definition synthesis_prompt ::
  "(pyval \<Rightarrow> string) \<Rightarrow> string \<Rightarrow> (string \<times> agent_response) list \<Rightarrow> string" where
  "synthesis_prompt dumps original_message collaboration_results =
     newline @
     ''        Original request: \"'' @ original_message @ ''\"'' @ newline @
     ''        '' @ newline @
     ''        I've gathered information from multiple specialized agents:'' @ newline @
     ''        '' @ newline @
     ''        '' @ dumps (synthesis_context collaboration_results) @ newline @
     ''        '' @ newline @
     ''        Please provide a comprehensive, well-integrated response that synthesizes all this information'' @ newline @
     ''        to fully address the original request. Ensure the response is coherent, complete, and'' @ newline @
     ''        acknowledges the contributions from different perspectives.'' @ newline @
     ''        ''"

text \<open>
  \<open>str.title()\<close> on ASCII letters, which is what the names of the agents consist of: the
  first letter of each run of letters in upper case, the others in lower case.
\<close>

definition is_letter :: "char \<Rightarrow> bool" where
  "is_letter c = (let n = (of_char c :: nat) in (65 \<le> n \<and> n \<le> 90) \<or> (97 \<le> n \<and> n \<le> 122))"

definition upper_char :: "char \<Rightarrow> char" where
  "upper_char c = (let n = (of_char c :: nat) in if 97 \<le> n \<and> n \<le> 122 then char_of (n - 32) else c)"

fun title_from :: "bool \<Rightarrow> string \<Rightarrow> string" where
  "title_from previous_is_cased [] = []"
| "title_from previous_is_cased (c # cs) =
     (if is_letter c
      then (if previous_is_cased then lower_char c else upper_char c) # title_from True cs
      else c # title_from False cs)"

definition title :: "string \<Rightarrow> string" where
  "title s = title_from False s"

text \<open>The loop of the handler of \<open>_synthesize_collaboration_results\<close> that builds the text.\<close>

fun combine_content :: "string \<Rightarrow> (string \<times> agent_response) list \<Rightarrow> string" where
  "combine_content combined_content [] = combined_content"
| "combine_content combined_content ((name, result) # rest) =
     combine_content
       (combined_content @ ''**'' @ title name @ '' Agent Insights:**'' @ newline
          @ ar_content result @ newline @ newline)
       rest"

text \<open>
  The handler of \<open>_synthesize_collaboration_results\<close>. It reads the local variable
  \<open>all_tools_used\<close>, which the \<open>try\<close> block assigns after the call of the primary agent
  has returned: \<open>None\<close> stands for the variable not being bound yet, and reading it then
  raises \<open>UnboundLocalError\<close> out of the handler. \<open>list(set(...))\<close> is modelled by
  \<open>remdups\<close>; Python fixes no order for it.
\<close>

definition synthesis_fallback ::
  "(string \<times> agent_response) list \<Rightarrow> string list option \<Rightarrow> error + agent_response" where
  "synthesis_fallback collaboration_results all_tools_used =
     (let combined_content =
            combine_content (''Based on analysis from multiple agents:'' @ newline @ newline)
              collaboration_results
      in case all_tools_used of
           None \<Rightarrow>
             Inl (Raised UnboundLocalError
                    ''cannot access local variable 'all_tools_used' where it is not associated with a value'')
         | Some tools \<Rightarrow>
             Inr \<lparr> ar_content = combined_content, ar_agent_name = ''coordinator'',
                   ar_tools_used = remdups tools, ar_confidence = 0.7,
                   ar_reasoning = Some ''Multi-agent collaboration with manual synthesis'',
                   ar_metadata =
                     [(''collaboration_synthesis'', VBool True),
                      (''agents_involved'', VList (map (VStr \<circ> fst) collaboration_results))] \<rparr>)"

text \<open>
  \<open>_synthesize_collaboration_results\<close>. The primary agent is the value of
  \<open>router.get_agent\<close>, possibly \<open>None\<close>. The only statement of the \<open>try\<close> block that can
  raise is the call of the primary agent, which comes before \<open>all_tools_used\<close> is bound.
\<close>

definition synthesize_collaboration_results ::
  "agent_run \<Rightarrow> (pyval \<Rightarrow> string) \<Rightarrow> string \<Rightarrow> (string \<times> agent_response) list
   \<Rightarrow> string option \<Rightarrow> error + agent_response"
where
  "synthesize_collaboration_results run dumps original_message collaboration_results
       primary_agent =
     (let prompt = synthesis_prompt dumps original_message collaboration_results
      in case (case primary_agent of
                 None \<Rightarrow> Inl (Raised AttributeError
                                ''NoneType object has no attribute process_message'')
               | Some agent \<Rightarrow> run agent prompt None) of
           Inr synthesis_response \<Rightarrow>
             let all_tools_used = concat (map (ar_tools_used \<circ> snd) collaboration_results)
             in Inr (synthesis_response
                       \<lparr> ar_tools_used := remdups all_tools_used,
                         ar_metadata :=
                           AList.update ''agents_involved''
                             (VList (map (VStr \<circ> fst) collaboration_results))
                             (AList.update ''collaboration_synthesis'' (VBool True)
                                (ar_metadata synthesis_response)) \<rparr>)
         | Inl e \<Rightarrow> synthesis_fallback collaboration_results None)"

text \<open>
  \<open>_handle_collaboration\<close>: the guarded body, and the handler that falls back to the
  primary agent with the original message. What that call raises leaves the method.
\<close>

definition collaborate ::
  "agent_run \<Rightarrow> (pyval \<Rightarrow> string) \<Rightarrow> string \<Rightarrow> routing_decision \<Rightarrow> context
   \<Rightarrow> error + agent_response"
where
  "collaborate run dumps message primary_routing ctx =
     (let primary_agent = get_agent (rd_agent_name primary_routing);
          secondary_agents = identify_secondary_agents message (rd_agent_name primary_routing);
          collaboration_plan =
            create_collaboration_plan message (rd_agent_name primary_routing) secondary_agents
      in case execute_steps run ctx (plan_steps collaboration_plan) [] of
           Inl e \<Rightarrow> Inl e
         | Inr collaboration_results \<Rightarrow>
             synthesize_collaboration_results run dumps message collaboration_results
               primary_agent)"

definition primary_fallback :: "agent_run \<Rightarrow> string \<Rightarrow> routing_decision \<Rightarrow> context
   \<Rightarrow> error + agent_response" where
  "primary_fallback run message primary_routing ctx =
     (case get_agent (rd_agent_name primary_routing) of
        None \<Rightarrow> Inl (Raised AttributeError
                       ''NoneType object has no attribute process_message'')
      | Some primary_agent \<Rightarrow> run primary_agent message ctx)"

definition handle_collaboration ::
  "agent_run \<Rightarrow> (pyval \<Rightarrow> string) \<Rightarrow> string \<Rightarrow> routing_decision \<Rightarrow> context
   \<Rightarrow> error + agent_response"
where
  "handle_collaboration run dumps message primary_routing ctx =
     (case collaborate run dumps message primary_routing ctx of
        Inr synthesis_response \<Rightarrow> Inr synthesis_response
      | Inl e \<Rightarrow> primary_fallback run message primary_routing ctx)"

text \<open>The dataclass \<open>CoordinatorResponse\<close>.\<close>

record coordinator_response =
  cr_content :: string
  cr_agent_used :: string
  cr_tools_used :: "string list"
  cr_confidence :: real
  cr_reasoning :: string
  cr_metadata :: pydict
  cr_session_id :: string
  cr_timestamp :: timestamp

text \<open>
  The state of an \<open>AgentCoordinator\<close>: its session id, the durable store, and its own
  conversation context with the store of the objects it shares.
\<close>

record coordinator =
  co_session_id :: string
  co_storage :: storage
  co_heap :: heap
  co_conversation_context :: conversation_context

text \<open>
  The circumstances of one request: what happens to the I/O of the store,
  \<open>settings.max_conversation_history\<close>, and the four readings of the clock (at the start of
  the request, for the stored entry, in the metadata update, in the conversation context).
\<close>

record circumstances =
  ci_io :: io_outcome
  ci_max_history :: int
  ci_request_time :: timestamp
  ci_entry_time :: timestamp
  ci_store_time :: timestamp
  ci_memory_time :: timestamp

text \<open>
  \<open>AgentCoordinator._store_conversation\<close>. Its handler has nothing left to catch: the
  dictionary is built from values at hand, and the store has caught its own exceptions.
\<close>

definition coordinator_store_conversation ::
  "circumstances \<Rightarrow> coordinator \<Rightarrow> string \<Rightarrow> agent_response \<Rightarrow> routing_decision \<Rightarrow> coordinator"
where
  "coordinator_store_conversation ci co message response routing_decision =
     (let conversation_entry =
            \<lparr> cd_session_id = Some (co_session_id co),
              cd_timestamp = Some (ci_entry_time ci),
              cd_user_message = Some message,
              cd_agent_response = Some (ar_content response),
              cd_agent_used = Some (ar_agent_name response),
              cd_tools_used = Some (ar_tools_used response),
              cd_confidence = Some (ar_confidence response),
              cd_routing_confidence = Some (rd_confidence routing_decision),
              cd_metadata = Some (ar_metadata response) \<rparr>
      in co \<lparr> co_storage := store_conversation (ci_io ci) (ci_max_history ci)
                               (ci_store_time ci) (co_storage co) conversation_entry \<rparr>)"

text \<open>
  The part of the \<open>try\<close> block of \<open>process_message\<close> that can raise: routing, the lookup
  of the agent, the gate, and the single agent or the collaboration. It yields the response,
  the routing decision and whether collaboration was used.
\<close>

definition answer ::
  "collaborators \<Rightarrow> string \<Rightarrow> string option \<Rightarrow> context
   \<Rightarrow> error + (agent_response \<times> routing_decision \<times> bool)"
where
  "answer cs message preferred_agent ctx =
     (case route_message (co_can_handle cs) (co_format_2f cs) message ctx preferred_agent of
        Inl e \<Rightarrow> Inl e
      | Inr routing_decision \<Rightarrow>
          (case get_agent (rd_agent_name routing_decision) of
             None \<Rightarrow>
               Inl (Raised Exception
                      (''Agent '' @ rd_agent_name routing_decision @ '' not available''))
           | Some agent \<Rightarrow>
               let collaboration_needed = check_collaboration_need message ctx
               in (case (if collaboration_needed
                         then handle_collaboration (co_process cs) (co_json_dumps cs) message
                                routing_decision ctx
                         else co_process cs agent message ctx) of
                     Inl e \<Rightarrow> Inl e
                   | Inr response \<Rightarrow> Inr (response, routing_decision, collaboration_needed))))"

definition alternatives_value :: "(string \<times> real) list option \<Rightarrow> pyval" where
  "alternatives_value alts =
     (case alts of None \<Rightarrow> VNone
      | Some xs \<Rightarrow> VList (map (\<lambda>(name, score). VList [VStr name, VReal score]) xs))"

text \<open>
  \<open>process_message\<close>. After the response is there, the entry is stored and the interaction
  recorded, neither of which raises, and the response of the coordinator is built from the
  response of the agent. The handler turns an exception into the error response.
\<close>

definition process_message ::
  "collaborators \<Rightarrow> circumstances \<Rightarrow> coordinator \<Rightarrow> string \<Rightarrow> string option \<Rightarrow> context
   \<Rightarrow> error + (coordinator_response \<times> coordinator)"
where
  "process_message cs ci co message preferred_agent ctx =
     (case answer cs message preferred_agent ctx of
        Inr (response, routing_decision, collaboration_needed) \<Rightarrow>
          let co1 = coordinator_store_conversation ci co message response routing_decision;
              (h, c) = add_interaction (ci_memory_time ci) (co_heap co1)
                         (co_conversation_context co1) message (ar_content response)
                         ''conversation'' None;
              co2 = co1 \<lparr> co_heap := h, co_conversation_context := c \<rparr>
          in Inr (\<lparr> cr_content = ar_content response,
                    cr_agent_used = ar_agent_name response,
                    cr_tools_used = ar_tools_used response,
                    cr_confidence = ar_confidence response,
                    cr_reasoning = (case ar_reasoning response of
                                      Some r \<Rightarrow> if r \<noteq> [] then r
                                                else rd_reasoning routing_decision
                                    | None \<Rightarrow> rd_reasoning routing_decision),
                    cr_metadata =
                      AList.update ''session_id'' (VStr (co_session_id co))
                        (AList.update ''collaboration_used'' (VBool collaboration_needed)
                           (AList.update ''routing_decision''
                              (VDict [(''selected_agent'',
                                         VStr (rd_agent_name routing_decision)),
                                      (''confidence'', VReal (rd_confidence routing_decision)),
                                      (''alternatives'',
                                         alternatives_value
                                           (rd_alternative_agents routing_decision))])
                              (ar_metadata response))),
                    cr_session_id = co_session_id co,
                    cr_timestamp = ci_request_time ci \<rparr>,
                  co2)
      | Inl e \<Rightarrow>
          Inr (\<lparr> cr_content =
                      ''I apologize, but I encountered an error while processing your request: ''
                        @ str_of e,
                    cr_agent_used = ''coordinator'',
                    cr_tools_used = [],
                    cr_confidence = 0.1,
                    cr_reasoning = ''Error during message processing'',
                    cr_metadata = [(''error'', VStr (str_of e))],
                    cr_session_id = co_session_id co,
                    cr_timestamp = ci_request_time ci \<rparr>,
                  co))"


definition spec_synthesize ::
  "agent_run \<Rightarrow> (pyval \<Rightarrow> string) \<Rightarrow> string \<Rightarrow> (string \<times> agent_response) list
   \<Rightarrow> string \<Rightarrow> error + agent_response"
where
  "spec_synthesize run dumps original_message collaboration_results primary =
     (case synthesize_collaboration_results run dumps original_message collaboration_results
             (Some primary) of
        Inr r \<Rightarrow> Inr r
      | Inl e \<Rightarrow>
          synthesis_fallback collaboration_results
            (Some (concat (map (ar_tools_used \<circ> snd) collaboration_results))))"


text \<open>Concrete agents, circumstances and a coordinator, for the instances below.\<close>

definition demo_response :: "string \<Rightarrow> string \<Rightarrow> agent_response" where
  "demo_response name text =
     \<lparr> ar_content = text, ar_agent_name = name, ar_tools_used = [], ar_confidence = 0.8,
       ar_reasoning = Some ''processed'', ar_metadata = [] \<rparr>"

definition demo_dumps :: "pyval \<Rightarrow> string" where
  "demo_dumps v = ''{}''"


text \<open>The creative agent answers short messages and raises on the long synthesis prompt.\<close>

definition synthesis_down :: agent_run where
  "synthesis_down name message ctx =
     (if name = ''creative'' \<and> length message > 200
      then Inl (Raised Exception ''Error calling LLM: timeout'')
      else Inr (demo_response name (''reply to: '' @ message)))"

definition creative_routing :: routing_decision where
  "creative_routing =
     \<lparr> rd_agent_name = ''creative'', rd_confidence = 0.69,
       rd_reasoning = ''Selected based on highest confidence score: 0.69'',
       rd_alternative_agents = Some [] \<rparr>"

definition demo_collaborators :: collaborators where
  "demo_collaborators =
     \<lparr> co_can_handle = demo_scorer,
       co_process = (\<lambda>name message ctx. Inr (demo_response name ''Paris'')),
       co_format_2f = demo_format, co_json_dumps = demo_dumps \<rparr>"

definition demo_circumstances :: circumstances where
  "demo_circumstances =
     \<lparr> ci_io = io_all_fail, ci_max_history = 100, ci_request_time = 1, ci_entry_time = 2,
       ci_store_time = 3, ci_memory_time = 4 \<rparr>"

definition demo_coordinator :: coordinator where
  "demo_coordinator =
     \<lparr> co_session_id = ''s1'', co_storage = empty_storage, co_heap = fst demo_context,
       co_conversation_context = snd demo_context \<rparr>"

section \<open>Properties of the string functions\<close>

lemma contains_sublist: "contains s sub = sublist sub s"
  by (induction s) (auto simp: sublist_Cons_right)

lemma any_in_iff: "any_in ws s = (\<exists>w \<in> set ws. sublist w s)"
  by (simp add: any_in_def list_ex_iff contains_sublist)

section \<open>Properties of the collaboration gate\<close>







section \<open>Properties of the conversation memory\<close>


lemma deque_append_lastn: "deque_append n (lastn n xs) x = lastn n (xs @ [x])"
proof (cases "n \<le> length xs")
  case True
  then have "Suc (length xs) - n = Suc (length xs - n)" by simp
  with True show ?thesis by (simp add: deque_append_def lastn_def)
next
  case False
  then show ?thesis by (simp add: deque_append_def lastn_def)
qed













lemma ContextEntry_asdict: "ContextEntry (asdict e) = Inr e"
  by (simp add: ContextEntry_def asdict_def)

lemma import_entries_asdict:
  "mem = lastn n old \<Longrightarrow>
     import_entries n mem (map asdict es) = (None, lastn n (old @ es))"
proof (induction es arbitrary: mem old)
  case Nil
  then show ?case by simp
next
  case (Cons e es)
  have "deque_append n mem e = lastn n (old @ [e])"
    using Cons.prems by (simp add: deque_append_lastn)
  from Cons.IH [OF this] show ?case
    by (simp add: ContextEntry_asdict)
qed

lemma clear_context_fields:
  "clear_context h c = (h1, c1) \<Longrightarrow>
     recent_memory c1 = [] \<and> max_memory_size c1 = max_memory_size c
     \<and> agent_name c1 = agent_name c \<and> current_topics c1 = []"
  by (auto simp: clear_context_def Let_def)

lemma import_context_entries:
  assumes "x_recent_memory data = Some (map asdict es)"
    and "import_context h c data = (h', c')"
  shows "recent_memory c' = lastn (max_memory_size c) es
         \<and> max_memory_size c' = max_memory_size c \<and> agent_name c' = agent_name c"
proof -
  obtain h1 c1 where cl: "clear_context h c = (h1, c1)"
    by (cases "clear_context h c")
  from clear_context_fields [OF cl]
  have e: "recent_memory c1 = lastn (max_memory_size c) []"
    and k: "max_memory_size c1 = max_memory_size c" and n: "agent_name c1 = agent_name c"
    by (simp_all add: lastn_def)
  have "import_entries (max_memory_size c) (recent_memory c1) (map asdict es)
          = (None, lastn (max_memory_size c) ([] @ es))"
    using e by (rule import_entries_asdict)
  then show ?thesis
    using assms cl k n
    by (auto simp: import_context_def Let_def split: option.splits)
qed

text \<open>
  C10. \<open>import_context\<close> keeps the capacity bound: whatever the number of entries in the
  exported \<open>recent_memory\<close>, after the import the memory holds at most
  \<open>max_memory_size\<close> entries, the last ones of the payload in their order.
\<close>

theorem import_context_capacity:
  assumes "x_recent_memory data = Some (map asdict es)"
    and "import_context h c data = (h', c')"
  shows "length (recent_memory c') \<le> max_memory_size c'
       \<and> max_memory_size c' = max_memory_size c
       \<and> recent_memory c' = drop (length es - max_memory_size c) es"
  using import_context_entries [OF assms] by (simp add: lastn_def)

theorem import_context_capacity_witness:
  "recent_memory (snd (import_context (fst demo_context) (snd demo_context)
       (export_context 9 empty_heap demo_full_context)))
     = [demo_entry 2 ''B'', demo_entry 3 ''C'']"
proof -
  have x: "x_recent_memory (export_context 9 empty_heap demo_full_context)
             = Some (map asdict [demo_entry 1 ''A'', demo_entry 2 ''B'', demo_entry 3 ''C''])"
    by (simp add: export_context_def demo_full_context_def)
  have m: "max_memory_size (snd demo_context) = 2"
    by (simp add: demo_context_def init_context_def Let_def)
  show ?thesis
    using import_context_capacity [OF x prod.collapse [symmetric]] m by simp
qed




text \<open>
  What the round trip does not bring back: the exported dictionary holds the topic history
  list and the metadata dictionary of the context themselves, which \<open>clear_context\<close>
  empties and resets in place.
\<close>

lemma roundtrip_resets_shared_objects:
  assumes "clear_context h c = (h1, c1)"
    and "import_context h1 c1 (export_context now h c) = (h2, c2)"
  shows "history_at h2 (topic_history c2) = []
       \<and> total_interactions (metadata_at h2 (context_metadata c2)) = 0
       \<and> last_activity (metadata_at h2 (context_metadata c2)) = None"
proof -
  obtain h1' c1' where cl: "clear_context h1 c1 = (h1', c1')"
    by (cases "clear_context h1 c1")
  from clear_context_fields [OF cl]
  have e: "recent_memory c1' = lastn (max_memory_size c1) []"
    and k: "max_memory_size c1' = max_memory_size c1"
    by (simp_all add: lastn_def)
  have ie: "import_entries (max_memory_size c1) (recent_memory c1')
      (map asdict (recent_memory c)) = (None, lastn (max_memory_size c1) ([] @ recent_memory c))"
    using e by (rule import_entries_asdict)
  from assms cl k ie show ?thesis
    by (auto simp: import_context_def export_context_def clear_context_def Let_def)
qed

section \<open>Properties of the router\<close>

lemma keyword_loop_count:
  "keyword_loop m ks s = s + 0.1 * real (length (filter (\<lambda>k. contains m k) ks))"
  by (induction ks arbitrary: s) (simp_all add: algebra_simps)

lemma map_of_map_pair: "a \<in> set xs \<Longrightarrow> map_of (map (\<lambda>x. (x, f x)) xs) a = Some (f a)"
  by (induction xs) auto

lemma agent_score_get:
  "a \<in> set agents \<Longrightarrow>
     dict_get (agent_scores_of can_handle message ctx) a 0 = spec_agent_score can_handle message ctx a"
  by (simp add: dict_get_def agent_scores_of_def spec_agent_score_def map_of_map_pair)

lemma keyword_scores_eq:
  "calculate_keyword_scores message
     = map (\<lambda>(n, ks). (n, min (0.1 * real (length (filter (\<lambda>k. sublist k (lower message)) ks))) 1))
         agent_keywords"
  by (simp add: calculate_keyword_scores_def Let_def keyword_loop_count contains_sublist)

lemma map_of_map_snd:
  "map_of (map (\<lambda>(n, ks). (n, f ks)) xs) a = map_option f (map_of xs a)"
  by (induction xs) auto

lemma keyword_score_get:
  "a \<in> set agents \<Longrightarrow> dict_get (calculate_keyword_scores message) a 0 = spec_keyword_score message a"
proof -
  assume "a \<in> set agents"
  then have "a \<in> fst ` set agent_keywords"
    by (auto simp: agents_def agent_keywords_def)
  then obtain ks where ks: "map_of agent_keywords a = Some ks"
    by (metis domIff dom_map_of_conv_image_fst not_Some_eq)
  show ?thesis
    unfolding keyword_scores_eq spec_keyword_score_def dict_get_def map_of_map_snd
    by (simp add: ks)
qed

lemma combined_scores_eq:
  "combined_scores_of can_handle message ctx
     = map (\<lambda>a. (a, spec_combined can_handle message ctx a)) agents"
  unfolding combined_scores_of_def Let_def spec_combined_def
  by (rule map_cong) (simp_all add: agent_score_get keyword_score_get)


lemma sorted_by_score_head:
  assumes "sorted_by_score items = (n, s) # rest"
  shows "(n, s) \<in> set items \<and> (\<forall>x \<in> set items. snd x \<le> s)"
proof -
  have st: "set (sorted_by_score items) = set items"
    by (simp add: sorted_by_score_def)
  have "sorted (map (\<lambda>x. - snd x) (sorted_by_score items))"
    unfolding sorted_by_score_def by (rule sorted_sort_key)
  with assms have "\<forall>x \<in> set rest. - s \<le> - snd x" by auto
  then have "\<forall>x \<in> set ((n, s) # rest). snd x \<le> s" by auto
  with assms st show ?thesis by (metis list.set_intros(1))
qed

lemma sorted_by_score_Nil: "sorted_by_score items = [] \<Longrightarrow> items = []"
  by (metis length_sort list.size(3) length_0_conv sorted_by_score_def)

lemma agents_nonempty: "agents \<noteq> []"
  by (simp add: agents_def)

lemma route_best:
  assumes "sorted_by_score (combined_scores_of can_handle message ctx) = (n, s) # rest"
  shows "n \<in> set agents \<and> s = spec_combined can_handle message ctx n
       \<and> s = Max (spec_combined can_handle message ctx ` set agents)"
proof -
  let ?f = "spec_combined can_handle message ctx"
  from sorted_by_score_head [OF assms]
  have mem: "(n, s) \<in> set (map (\<lambda>a. (a, ?f a)) agents)"
    and top: "\<forall>x \<in> set (map (\<lambda>a. (a, ?f a)) agents). snd x \<le> s"
    by (simp_all add: combined_scores_eq)
  from mem have n: "n \<in> set agents" and s: "s = ?f n" by auto
  from top have le: "\<forall>a \<in> set agents. ?f a \<le> s" by auto
  have "Max (?f ` set agents) = s"
  proof (rule Max_eqI)
    show "finite (?f ` set agents)" by simp
    show "\<And>y. y \<in> ?f ` set agents \<Longrightarrow> y \<le> s" using le by auto
    show "s \<in> ?f ` set agents" using n s by auto
  qed
  with n s show ?thesis by simp
qed

lemma combined_nonempty: "sorted_by_score (combined_scores_of can_handle message ctx) \<noteq> []"
proof
  assume "sorted_by_score (combined_scores_of can_handle message ctx) = []"
  then have "combined_scores_of can_handle message ctx = []" by (rule sorted_by_score_Nil)
  then show False by (simp add: combined_scores_eq agents_nonempty)
qed

lemma get_fallback_agent_registered: "get_fallback_agent message \<in> set agents"
  by (simp add: get_fallback_agent_def Let_def agents_def fallback_order_def)

lemma spec_keyword_score_range: "0 \<le> spec_keyword_score message a \<and> spec_keyword_score message a \<le> 1"
  by (simp add: spec_keyword_score_def)

lemma spec_combined_range:
  assumes "\<forall>s. can_handle a message ctx = Inr s \<longrightarrow> 0 \<le> s \<and> s \<le> 1"
  shows "0 \<le> spec_combined can_handle message ctx a \<and> spec_combined can_handle message ctx a \<le> 1"
proof -
  have a: "0 \<le> spec_agent_score can_handle message ctx a
         \<and> spec_agent_score can_handle message ctx a \<le> 1"
    using assms by (auto simp: spec_agent_score_def split: sum.splits)
  from a spec_keyword_score_range [of message a] show ?thesis
    unfolding spec_combined_def by auto
qed

lemma combined_degraded:
  "combined_scores_of (degraded can_handle) message ctx = combined_scores_of can_handle message ctx"
proof -
  have "spec_agent_score (degraded can_handle) message ctx = spec_agent_score can_handle message ctx"
    by (rule ext) (simp add: spec_agent_score_def degraded_def split: sum.splits)
  then show ?thesis by (simp add: combined_scores_eq spec_combined_def)
qed

text \<open>
  C7. \<open>route_message\<close> always returns a decision, whose confidence lies between 0 and 1 and
  whose agent is registered, provided every scorer that returns gives a value between 0 and 1.
  A scorer that raises counts as the score 0.0: the decision is the one taken with a scorer
  that returns 0.0 there.
\<close>

theorem route_message_total_and_bounded:
  assumes "\<forall>a \<in> set agents. \<forall>s. can_handle a message ctx = Inr s \<longrightarrow> 0 \<le> s \<and> s \<le> 1"
  shows "(\<exists>d. route_message can_handle format_2f message ctx preferred_agent = Inr d
            \<and> 0 \<le> rd_confidence d \<and> rd_confidence d \<le> 1 \<and> rd_agent_name d \<in> set agents)
       \<and> (\<forall>a \<in> set agents. \<forall>e. can_handle a message ctx = Inl e \<longrightarrow>
             dict_get (agent_scores_of can_handle message ctx) a 0 = 0)
       \<and> route_message can_handle format_2f message ctx preferred_agent
           = route_message (degraded can_handle) format_2f message ctx preferred_agent"
proof -
  let ?sorted = "sorted_by_score (combined_scores_of can_handle message ctx)"
  have one: "\<exists>d. route_message can_handle format_2f message ctx preferred_agent = Inr d
            \<and> 0 \<le> rd_confidence d \<and> rd_confidence d \<le> 1 \<and> rd_agent_name d \<in> set agents"
  proof (cases "\<exists>p. preferred_agent = Some p \<and> p \<noteq> [] \<and> p \<in> set agents")
    case True
    then show ?thesis by (auto simp: route_message_def)
  next
    case False
    then have pref: "(case preferred_agent of
              Some p \<Rightarrow> if p \<noteq> [] \<and> p \<in> set agents then Some p else None
            | None \<Rightarrow> None) = None"
      by (auto split: option.splits)
    obtain n s rest where hd: "?sorted = (n, s) # rest"
      using combined_nonempty [of can_handle message ctx] by (cases ?sorted) auto
    from route_best [OF hd] have n: "n \<in> set agents"
      and s: "s = spec_combined can_handle message ctx n" by simp_all
    from assms n have "\<forall>t. can_handle n message ctx = Inr t \<longrightarrow> 0 \<le> t \<and> t \<le> 1" by blast
    then have "0 \<le> spec_combined can_handle message ctx n
             \<and> spec_combined can_handle message ctx n \<le> 1"
      by (rule spec_combined_range)
    with s have rng: "0 \<le> s \<and> s \<le> 1" by simp
    show ?thesis
      unfolding route_message_def pref
      using hd n rng get_fallback_agent_registered [of message]
      by (simp add: Let_def)
  qed
  have two: "\<forall>a \<in> set agents. \<forall>e. can_handle a message ctx = Inl e \<longrightarrow>
             dict_get (agent_scores_of can_handle message ctx) a 0 = 0"
    by (simp add: agent_score_get spec_agent_score_def)
  have three: "route_message can_handle format_2f message ctx preferred_agent
           = route_message (degraded can_handle) format_2f message ctx preferred_agent"
    unfolding route_message_def combined_degraded by (rule refl)
  from one two three show ?thesis by blast
qed



theorem route_message_total_and_bounded_witness:
  "\<exists>d. route_message demo_scorer demo_format ''Write a poem'' None None = Inr d
       \<and> 0 \<le> rd_confidence d \<and> rd_confidence d \<le> 1 \<and> rd_agent_name d \<in> set agents"
proof -
  have h: "\<forall>a \<in> set agents. \<forall>s. demo_scorer a ''Write a poem'' None = Inr s \<longrightarrow> 0 \<le> s \<and> s \<le> 1"
    by (simp add: demo_scorer_def agents_def)
  show ?thesis
    using route_message_total_and_bounded [where can_handle = demo_scorer
        and message = "''Write a poem''" and ctx = None and format_2f = demo_format
        and preferred_agent = None, OF h]
    by blast
qed


text \<open>Two decisions computed from the definitions.\<close>

lemma route_example:
  "route_message demo_scorer demo_format ''Write a poem'' None None
     = Inr \<lparr> rd_agent_name = ''creative'', rd_confidence = 0.69,
             rd_reasoning = ''Selected based on highest confidence score: 0.69'',
             rd_alternative_agents = Some [(''research'', 0.14), (''task'', 0.14)] \<rparr>"
  by code_simp

lemma route_fallback_example:
  "route_message (\<lambda>a m c. Inl (Raised Exception [])) demo_format ''Hello, why?'' None None
     = Inr \<lparr> rd_agent_name = ''research'', rd_confidence = 0.5,
             rd_reasoning = ''No agent showed strong confidence, using fallback: research'',
             rd_alternative_agents = Some [] \<rparr>"
  by code_simp

section \<open>Properties of the durable store\<close>

lemma store_inv_index_invariant: "store_inv st \<Longrightarrow> index_invariant st"
  unfolding store_inv_def index_invariant_def list_all_iff
  by (auto simp: entries_of_def split: option.splits)

lemma store_inv_empty: "store_inv empty_storage"
  by (simp add: store_inv_def empty_storage_def entries_of_def)

lemma session_file_keeps_index:
  "conversations (store_in_session_file io m st e) = conversations st
   \<and> session_metadata (store_in_session_file io m st e) = session_metadata st"
  by (simp add: store_in_session_file_def write_session_file_def Let_def
      split: option.splits file_content.splits)

lemma store_conversation_rejected:
  "ConversationEntry d = Inl e \<Longrightarrow> store_conversation io m now st d = st"
  by (simp add: store_conversation_def)

lemma store_conversation_conversations:
  "ConversationEntry d = Inr entry \<Longrightarrow>
     conversations (store_conversation io m now st d)
       = (if io_db_insert io = None then conversations st @ [entry] else conversations st)"
  by (auto simp: store_conversation_def Let_def update_session_metadata_def upsert_session_def
      session_file_keeps_index store_in_database_def insert_conversation_def
      split: option.splits)

lemma store_conversation_metadata:
  "ConversationEntry d = Inr entry \<Longrightarrow>
     session_metadata (store_conversation io m now st d)
       = (if io_meta_update io = None
          then (session_metadata st)(conv_session_id entry \<mapsto>
                 (case session_metadata st (conv_session_id entry) of
                    Some row \<Rightarrow> row \<lparr> sm_last_activity := now,
                                      sm_message_count := sm_message_count row + 1 \<rparr>
                  | None \<Rightarrow> \<lparr> sm_created_at = now, sm_last_activity = now,
                               sm_message_count = 1 \<rparr>))
          else session_metadata st)"
  by (auto simp: store_conversation_def Let_def update_session_metadata_def upsert_session_def
      session_file_keeps_index store_in_database_def insert_conversation_def
      split: option.splits)

lemma ConversationEntry_fields:
  "ConversationEntry d = Inr entry \<Longrightarrow>
     cd_timestamp d = Some (conv_timestamp entry) \<and> cd_session_id d = Some (conv_session_id entry)"
  by (auto simp: ConversationEntry_def split: option.splits)

lemma store_conversation_step:
  assumes inv: "store_inv st"
    and bound: "\<forall>e \<in> set (conversations st). conv_timestamp e \<le> now"
    and ok: "io_db_insert io = None \<longrightarrow> io_meta_update io = None"
    and ts: "\<forall>t. cd_timestamp d = Some t \<longrightarrow> t \<le> now"
  shows "store_inv (store_conversation io m now st d)
       \<and> (\<forall>e \<in> set (conversations (store_conversation io m now st d)). conv_timestamp e \<le> now)"
proof (cases "ConversationEntry d")
  case (Inl e)
  with inv bound show ?thesis by (simp add: store_conversation_rejected)
next
  case (Inr entry)
  let ?st' = "store_conversation io m now st d"
  let ?sid = "conv_session_id entry"
  note cs = store_conversation_conversations [OF Inr, of io m now st]
  note md = store_conversation_metadata [OF Inr, of io m now st]
  from ConversationEntry_fields [OF Inr] ts have tnew: "conv_timestamp entry \<le> now" by simp
  from inv have rows: "\<forall>e \<in> set (conversations st). session_metadata st (conv_session_id e) \<noteq> None"
    and cnt: "\<And>sid row. session_metadata st sid = Some row \<Longrightarrow>
                int (length (entries_of st sid)) \<le> sm_message_count row"
    and act: "\<And>sid row e. session_metadata st sid = Some row \<Longrightarrow> e \<in> set (entries_of st sid)
                \<Longrightarrow> conv_timestamp e \<le> sm_last_activity row"
    by (auto simp: store_inv_def)
  have none_empty: "session_metadata st ?sid = None \<Longrightarrow> entries_of st ?sid = []"
    using rows by (auto simp: entries_of_def filter_empty_conv)
  have b': "\<forall>e \<in> set (conversations ?st'). conv_timestamp e \<le> now"
    using bound tnew by (auto simp: cs)
  show ?thesis
  proof (cases "io_meta_update io = None")
    case False
    with ok have db: "io_db_insert io \<noteq> None" by auto
    from False db have "conversations ?st' = conversations st"
      and "session_metadata ?st' = session_metadata st"
      by (auto simp: cs md)
    then have "store_inv ?st'" using inv by (simp add: store_inv_def entries_of_def)
    with b' show ?thesis by simp
  next
    case True
    have ent: "\<And>sid. entries_of ?st' sid =
        (if io_db_insert io = None \<and> sid = ?sid then entries_of st sid @ [entry]
         else entries_of st sid)"
      by (auto simp: entries_of_def cs)
    have p1: "\<forall>e \<in> set (conversations ?st'). session_metadata ?st' (conv_session_id e) \<noteq> None"
      using rows True by (auto simp: cs md)
    have p2: "int (length (entries_of ?st' sid)) \<le> sm_message_count row
            \<and> (\<forall>e \<in> set (entries_of ?st' sid). conv_timestamp e \<le> sm_last_activity row)"
      if r: "session_metadata ?st' sid = Some row" for sid row
    proof (cases "sid = ?sid")
      case False
      with r True have "session_metadata st sid = Some row" by (simp add: md)
      with False cnt act show ?thesis by (simp add: ent)
    next
      case same: True
      have allb: "\<forall>e \<in> set (entries_of ?st' sid). conv_timestamp e \<le> now"
        using b' by (auto simp: entries_of_def)
      show ?thesis
      proof (cases "session_metadata st ?sid")
        case None
        with r True same have row: "row = \<lparr> sm_created_at = now, sm_last_activity = now,
                               sm_message_count = 1 \<rparr>"
          by (simp add: md)
        from none_empty [OF None] have "length (entries_of ?st' sid) \<le> 1"
          by (simp add: ent same)
        with allb row show ?thesis by simp
      next
        case (Some old)
        with r True same have row: "row = old \<lparr> sm_last_activity := now,
                                      sm_message_count := sm_message_count old + 1 \<rparr>"
          by (simp add: md)
        from cnt [OF Some] have "int (length (entries_of ?st' sid)) \<le> sm_message_count old + 1"
          by (simp add: ent same)
        with allb row show ?thesis by simp
      qed
    qed
    from p1 p2 have "store_inv ?st'" unfolding store_inv_def by blast
    with b' show ?thesis by simp
  qed
qed

lemma persist_all_inv:
  "store_inv st \<Longrightarrow> \<forall>e \<in> set (conversations st). conv_timestamp e \<le> t0 \<Longrightarrow>
   sorted (t0 # map op_now ops) \<Longrightarrow>
   \<forall>op \<in> set ops. io_db_insert (op_io op) = None \<longrightarrow> io_meta_update (op_io op) = None \<Longrightarrow>
   \<forall>op \<in> set ops. \<forall>t. cd_timestamp (op_entry op) = Some t \<longrightarrow> t \<le> op_now op \<Longrightarrow>
   store_inv (persist_all m st ops)"
proof (induction ops arbitrary: st t0)
  case Nil
  then show ?case by simp
next
  case (Cons op rest)
  let ?st' = "store_conversation (op_io op) m (op_now op) st (op_entry op)"
  from Cons.prems(3) have le: "t0 \<le> op_now op" and srt: "sorted (op_now op # map op_now rest)"
    by simp_all
  from Cons.prems(2) le have b: "\<forall>e \<in> set (conversations st). conv_timestamp e \<le> op_now op"
    by auto
  from Cons.prems(4) have ok: "io_db_insert (op_io op) = None \<longrightarrow> io_meta_update (op_io op) = None"
    by simp
  from Cons.prems(5) have ts: "\<forall>t. cd_timestamp (op_entry op) = Some t \<longrightarrow> t \<le> op_now op"
    by simp
  from store_conversation_step [OF Cons.prems(1) b ok ts, of m]
  have i': "store_inv ?st'"
    and b': "\<forall>e \<in> set (conversations ?st'). conv_timestamp e \<le> op_now op" by simp_all
  from Cons.prems(4) have ok': "\<forall>op \<in> set rest. io_db_insert (op_io op) = None
      \<longrightarrow> io_meta_update (op_io op) = None" by simp
  from Cons.prems(5) have ts': "\<forall>op \<in> set rest. \<forall>t. cd_timestamp (op_entry op) = Some t
      \<longrightarrow> t \<le> op_now op" by simp
  from Cons.IH [OF i' b' srt ok' ts'] show ?case by simp
qed

text \<open>
  C4, as the code has it. Starting from the empty store, after any sequence of \<open>persist\<close>
  calls in which no metadata update fails after its index insert went through, and whose
  clock readings do not decrease, each entry carrying a timestamp no later than the reading of
  its metadata update, the invariant of the index holds. Failed inserts, failed file writes
  and rejected dictionaries are allowed.
\<close>

theorem persist_keeps_index_invariant:
  assumes "\<forall>op \<in> set ops. io_db_insert (op_io op) = None \<longrightarrow> io_meta_update (op_io op) = None"
    and "sorted (map op_now ops)"
    and "\<forall>op \<in> set ops. \<forall>t. cd_timestamp (op_entry op) = Some t \<longrightarrow> t \<le> op_now op"
  shows "index_invariant (persist_all max_entries empty_storage ops)"
proof -
  have "sorted (0 # map op_now ops)" using assms(2) by simp
  with store_inv_empty assms(1,3)
  have "store_inv (persist_all max_entries empty_storage ops)"
    by (intro persist_all_inv [where ?t0.0 = 0]) (simp_all add: empty_storage_def)
  then show ?thesis by (rule store_inv_index_invariant)
qed


theorem persist_keeps_index_invariant_witness:
  "index_invariant (persist_all 100 empty_storage demo_ops)"
proof -
  have a: "\<forall>op \<in> set demo_ops. io_db_insert (op_io op) = None
             \<longrightarrow> io_meta_update (op_io op) = None"
    by (simp add: demo_ops_def io_ok_def)
  have b: "sorted (map op_now demo_ops)"
    by (simp add: demo_ops_def)
  have c: "\<forall>op \<in> set demo_ops. \<forall>t. cd_timestamp (op_entry op) = Some t \<longrightarrow> t \<le> op_now op"
    by (simp add: demo_ops_def demo_dict_def)
  show ?thesis using persist_keeps_index_invariant [OF a b c] .
qed

text \<open>
  The claim as stated fails: one \<open>persist\<close> call whose insert is committed and whose
  metadata update raises leaves an index entry without a metadata row.
\<close>

theorem persist_swallowed_metadata_failure_breaks_invariant:
  "\<not> index_invariant (persist_all 100 empty_storage
        [\<lparr> op_entry = demo_dict ''s1'' 4, op_io = io_meta_fails, op_now = 5 \<rparr>])"
  by (simp add: index_invariant_def store_conversation_def ConversationEntry_def demo_dict_def
      store_in_database_def insert_conversation_def io_meta_fails_def io_ok_def
      store_in_session_file_def write_session_file_def update_session_metadata_def
      upsert_session_def empty_storage_def Let_def)

section \<open>Properties of the coordinator\<close>









text \<open>
  When the call of the primary agent raises, the handler of
  \<open>_synthesize_collaboration_results\<close> raises itself.
\<close>

lemma synthesis_failure_escapes:
  "run primary (synthesis_prompt dumps original_message collaboration_results) None = Inl e \<Longrightarrow>
   \<exists>m. synthesize_collaboration_results run dumps original_message collaboration_results
         (Some primary) = Inl (Raised UnboundLocalError m)"
  by (simp add: synthesize_collaboration_results_def synthesis_fallback_def Let_def)

text \<open>
  C2 on the code. With one secondary result in the map and a primary agent that raises on the
  synthesis prompt, \<open>_synthesize_collaboration_results\<close> raises \<open>UnboundLocalError\<close>
  instead of returning the manual concatenation, and \<open>_handle_collaboration\<close> returns the
  reply of the primary agent to the original message, whose confidence is not 0.7.
\<close>

theorem synthesis_failure_raises_unbound_local:
  "synthesize_collaboration_results synthesis_down demo_dumps ''research and write an article''
     [(''research'', demo_response ''research'' ''facts'')] (Some ''creative'')
   = Inl (Raised UnboundLocalError
       ''cannot access local variable 'all_tools_used' where it is not associated with a value'')
   \<and> handle_collaboration synthesis_down demo_dumps ''research and write an article''
       creative_routing None
     = Inr (demo_response ''creative'' ''reply to: research and write an article'')
   \<and> spec_synthesize synthesis_down demo_dumps ''research and write an article''
       [(''research'', demo_response ''research'' ''facts'')] ''creative''
     = Inr \<lparr> ar_content = ''Based on analysis from multiple agents:'' @ newline @ newline
                 @ ''**Research Agent Insights:**'' @ newline @ ''facts'' @ newline @ newline,
             ar_agent_name = ''coordinator'', ar_tools_used = [], ar_confidence = 0.7,
             ar_reasoning = Some ''Multi-agent collaboration with manual synthesis'',
             ar_metadata = [(''collaboration_synthesis'', VBool True),
                            (''agents_involved'', VList [VStr ''research''])] \<rparr>"
  by code_simp

lemma process_message_returns:
  "\<exists>resp co'. process_message cs ci co message preferred ctx = Inr (resp, co')"
  by (cases "answer cs message preferred ctx")
     (auto simp: process_message_def Let_def split: prod.splits)

lemma process_message_from_answer:
  assumes "answer cs message preferred ctx = Inr (response, rd, collab)"
    and "process_message cs ci co message preferred ctx = Inr (resp, co')"
  shows "cr_content resp = ar_content response \<and> cr_agent_used resp = ar_agent_name response
       \<and> cr_confidence resp = ar_confidence response
       \<and> cr_tools_used resp = ar_tools_used response"
  using assms by (auto simp: process_message_def Let_def split: prod.splits)

lemma process_message_response_io:
  "map_sum id fst (process_message cs (ci \<lparr> ci_io := io \<rparr>) co message preferred ctx)
     = map_sum id fst (process_message cs ci co message preferred ctx)"
  by (cases "answer cs message preferred ctx")
     (auto simp: process_message_def Let_def coordinator_store_conversation_def
        split: prod.splits)

text \<open>
  C3. Whatever happens to the writes of the durable store, \<open>process_message\<close> returns a
  response and raises nothing; when the agent pipeline has produced a response, the content,
  the agent and the confidence returned are its own; and the response returned does not
  depend on the outcome of the writes.
\<close>

theorem store_failure_never_fails_request:
  "(\<exists>resp co'. process_message cs ci co message preferred ctx = Inr (resp, co')
       \<and> (\<forall>response rd collab.
             answer cs message preferred ctx = Inr (response, rd, collab) \<longrightarrow>
               cr_content resp = ar_content response
               \<and> cr_agent_used resp = ar_agent_name response
               \<and> cr_confidence resp = ar_confidence response))
   \<and> map_sum id fst (process_message cs (ci \<lparr> ci_io := io \<rparr>) co message preferred ctx)
       = map_sum id fst (process_message cs ci co message preferred ctx)"
proof -
  obtain resp co' where p: "process_message cs ci co message preferred ctx = Inr (resp, co')"
    using process_message_returns by blast
  have "\<forall>response rd collab.
             answer cs message preferred ctx = Inr (response, rd, collab) \<longrightarrow>
               cr_content resp = ar_content response
               \<and> cr_agent_used resp = ar_agent_name response
               \<and> cr_confidence resp = ar_confidence response"
    using process_message_from_answer [OF _ p] by blast
  with p process_message_response_io show ?thesis by blast
qed

theorem store_failure_never_fails_request_witness:
  "\<exists>resp co'. process_message demo_collaborators demo_circumstances demo_coordinator
        ''what is the capital of France'' None None = Inr (resp, co')
      \<and> cr_content resp = ''Paris'' \<and> cr_agent_used resp = ''creative''
      \<and> cr_confidence resp = 0.8"
proof -
  let ?a = "answer demo_collaborators ''what is the capital of France'' None None"
  have r: "\<not> isl ?a" by code_simp
  have c: "ar_content (fst (projr ?a)) = ''Paris'' \<and> ar_agent_name (fst (projr ?a)) = ''creative''
           \<and> ar_confidence (fst (projr ?a)) = 0.8"
    by code_simp
  from r have "?a = Inr (fst (projr ?a), fst (snd (projr ?a)), snd (snd (projr ?a)))"
    by (cases ?a) auto
  with c show ?thesis
    using store_failure_never_fails_request [of demo_collaborators demo_circumstances
        demo_coordinator "''what is the capital of France''" None None io_ok]
    by metis
qed

text \<open>With every write of the store failing, the store is left as it was.\<close>

lemma store_unavailable_leaves_store:
  "store_conversation io_all_fail m now st d = st"
  by (cases "ConversationEntry d")
     (simp_all add: store_conversation_def Let_def io_all_fail_def store_in_database_def
        insert_conversation_def store_in_session_file_def write_session_file_def
        update_session_metadata_def upsert_session_def)

end
